theory Spec2Isabelle
  imports Main
begin

section \<open>Python values\<close>

text \<open>
  The cache is value-type-agnostic: it pickles whatever it is given. The values that
  travel through it are the JSON-like data the scraper produces: \<open>None\<close>, integers,
  strings, lists and dictionaries with string keys. A dictionary is an association list
  in insertion order with distinct keys, as Python's \<open>dict\<close> iterates.
  A string is the list of its code points: the character \<open>c\<close> stands for the code point
  \<open>of_char c\<close>. HOL's \<open>char\<close> ranges over the code points below 256 (Latin-1); a
  string with a code point beyond that range is outside the model.
\<close>

datatype pyval =
    PNone
  | PInt int
  | PStr string
  | PList "pyval list"
  | PDict "(string \<times> pyval) list"

text \<open>Python truthiness: what \<open>if x:\<close>, \<open>not x\<close> and \<open>x or y\<close> test.\<close>

fun truthy :: "pyval \<Rightarrow> bool" where
  "truthy PNone = False"
| "truthy (PInt i) = (i \<noteq> 0)"
| "truthy (PStr s) = (s \<noteq> [])"
| "truthy (PList xs) = (xs \<noteq> [])"
| "truthy (PDict kvs) = (kvs \<noteq> [])"

definition py_or :: "pyval \<Rightarrow> pyval \<Rightarrow> pyval" where
  "py_or a b = (if truthy a then a else b)"

datatype error =
    HTTPException nat
  | TypeError
  | AttributeError
  | ValidationError
  | ConnectionError
  | OSError
  | UpstreamError

text \<open>Dictionaries: \<open>d[k] = v\<close> keeps the position of an existing key and appends a new one.\<close>

fun dict_set :: "'k \<Rightarrow> 'v \<Rightarrow> ('k \<times> 'v) list \<Rightarrow> ('k \<times> 'v) list" where
  "dict_set k v [] = [(k, v)]"
| "dict_set k v ((k', v') # rest) =
     (if k' = k then (k, v) # rest else (k', v') # dict_set k v rest)"

fun dict_del :: "'k \<Rightarrow> ('k \<times> 'v) list \<Rightarrow> ('k \<times> 'v) list" where
  "dict_del k [] = []"
| "dict_del k ((k', v') # rest) =
     (if k' = k then dict_del k rest else (k', v') # dict_del k rest)"

text \<open>
  Python slicing \<open>xs[start:stop]\<close> on integers of any sign: a negative bound counts from
  the end, and both bounds are clamped to \<open>0 .. len(xs)\<close>.
\<close>

definition py_clamp :: "nat \<Rightarrow> int \<Rightarrow> nat" where
  "py_clamp n i =
     (if i < 0 then (if int n + i < 0 then 0 else nat (int n + i))
      else (if int n < i then n else nat i))"

definition py_slice :: "'a list \<Rightarrow> int \<Rightarrow> int \<Rightarrow> 'a list" where
  "py_slice xs start stop =
     (let n = length xs; a = py_clamp n start; b = py_clamp n stop
      in take (b - a) (drop a xs))"

section \<open>Strings\<close>

text \<open>
  \<open>str.lower()\<close>, \<open>str.strip()\<close>, \<open>str.isalnum()\<close> and \<open>a in b\<close>, as the interpreter
  computes them on the code points below 256. There \<open>lower\<close> works character by
  character: it adds 32 to \<open>A-Z\<close> (65-90) and to the accented capitals 192-214 and
  216-222, and leaves every other code point as it is. \<open>strip\<close> removes the characters
  for which \<open>str.isspace\<close> holds: 9-13, 28-32, 133 (U+0085) and 160 (U+00A0).
  \<open>isalnum\<close> holds of the digits, the letters (Latin-1 letters, the ordinal indicators
  170 and 186 and the micro sign 181 included) and the numeric characters 178, 179, 185 and
  188-190.
\<close>

definition lower_char :: "char \<Rightarrow> char" where
  "lower_char c =
     (if (65 \<le> (of_char c :: nat) \<and> (of_char c :: nat) \<le> 90)
         \<or> (192 \<le> (of_char c :: nat) \<and> (of_char c :: nat) \<le> 214)
         \<or> (216 \<le> (of_char c :: nat) \<and> (of_char c :: nat) \<le> 222)
      then char_of ((of_char c :: nat) + 32) else c)"

definition lower :: "string \<Rightarrow> string" where
  "lower s = map lower_char s"

definition is_space :: "char \<Rightarrow> bool" where
  "is_space c =
     ((9 \<le> (of_char c :: nat) \<and> (of_char c :: nat) \<le> 13)
      \<or> (28 \<le> (of_char c :: nat) \<and> (of_char c :: nat) \<le> 32)
      \<or> (of_char c :: nat) = 133
      \<or> (of_char c :: nat) = 160)"

definition strip :: "string \<Rightarrow> string" where
  "strip s = rev (dropWhile is_space (rev (dropWhile is_space s)))"

definition isalnum :: "char \<Rightarrow> bool" where
  "isalnum c =
     ((48 \<le> (of_char c :: nat) \<and> (of_char c :: nat) \<le> 57)
      \<or> (65 \<le> (of_char c :: nat) \<and> (of_char c :: nat) \<le> 90)
      \<or> (97 \<le> (of_char c :: nat) \<and> (of_char c :: nat) \<le> 122)
      \<or> (of_char c :: nat) = 170
      \<or> (178 \<le> (of_char c :: nat) \<and> (of_char c :: nat) \<le> 179)
      \<or> (of_char c :: nat) = 181
      \<or> (185 \<le> (of_char c :: nat) \<and> (of_char c :: nat) \<le> 186)
      \<or> (188 \<le> (of_char c :: nat) \<and> (of_char c :: nat) \<le> 190)
      \<or> (192 \<le> (of_char c :: nat) \<and> (of_char c :: nat) \<le> 214)
      \<or> (216 \<le> (of_char c :: nat) \<and> (of_char c :: nat) \<le> 246)
      \<or> (248 \<le> (of_char c :: nat) \<and> (of_char c :: nat) \<le> 255))"

fun is_prefix :: "string \<Rightarrow> string \<Rightarrow> bool" where
  "is_prefix [] ys = True"
| "is_prefix (x # xs) [] = False"
| "is_prefix (x # xs) (y # ys) = (x = y \<and> is_prefix xs ys)"

fun str_in :: "string \<Rightarrow> string \<Rightarrow> bool" where
  "str_in needle [] = (needle = [])"
| "str_in needle (y # ys) = (is_prefix needle (y # ys) \<or> str_in needle ys)"

section \<open>Configuration (core/config.py)\<close>

definition CATEGORIES :: "(string \<times> string) list" where
  "CATEGORIES =
     [(''characters'', ''Cyberpunk 2077 Characters''),
      (''vehicles'', ''Cyberpunk 2077 Vehicles''),
      (''weapons'', ''Weapons in Cyberpunk 2077''),
      (''locations'', ''Cyberpunk 2077 Locations''),
      (''perks'', ''Perks in Cyberpunk 2077''),
      (''items'', ''Items in Cyberpunk 2077'')]"

definition TEMP_DIR :: string where
  "TEMP_DIR = ''data/temp''"

definition SEARCH_MIN_QUERY_LENGTH :: int where
  "SEARCH_MIN_QUERY_LENGTH = 3"

definition SEARCH_CACHE_TTL :: int where
  "SEARCH_CACHE_TTL = 300"

section \<open>The tiered cache (app/redis/redis_cache.py)\<close>

text \<open>
  The state the cache object and its two tiers live in. Time is an integer count of
  microseconds (the resolution of \<open>datetime\<close>); \<open>timedelta(seconds=n)\<close> is
  \<open>seconds n\<close>. The flags \<open>redis_up\<close> and \<open>fs_ok\<close> are the environment: when
  \<open>redis_up\<close> is false every call on the Redis client raises, when \<open>fs_ok\<close> is false
  every file operation raises. Pickling and JSON encoding round-trip the values above, so
  a stored entry is kept as the value itself. \<open>scrape_calls\<close> logs the invocations of the
  scraping collaborator.
\<close>

record world =
  use_redis :: bool
  ttl :: int
  redis_up :: bool
  redis_db :: "(string \<times> pyval \<times> int option) list"
  fs_ok :: bool
  files :: "(string \<times> pyval \<times> int) list"
  scrape_calls :: "string list"

definition seconds :: "int \<Rightarrow> int" where
  "seconds n = n * 1000000"

text \<open>The Redis client: \<open>GET\<close>, \<open>SETEX\<close> and \<open>SET\<close>. A key with an expiry instant is
  gone from that instant on.\<close>

definition redis_get :: "world \<Rightarrow> int \<Rightarrow> string \<Rightarrow> error + pyval option" where
  "redis_get w now key =
     (if \<not> redis_up w then Inl ConnectionError
      else Inr (case map_of (redis_db w) key of
                  None \<Rightarrow> None
                | Some (v, None) \<Rightarrow> Some v
                | Some (v, Some e) \<Rightarrow> (if now < e then Some v else None)))"

definition redis_setex :: "world \<Rightarrow> int \<Rightarrow> string \<Rightarrow> int \<Rightarrow> pyval \<Rightarrow> error + (bool \<times> world)" where
  "redis_setex w now key t v =
     (if \<not> redis_up w then Inl ConnectionError
      else Inr (True, w\<lparr>redis_db := dict_set key (v, Some (now + seconds t)) (redis_db w)\<rparr>))"

definition redis_set :: "world \<Rightarrow> string \<Rightarrow> pyval \<Rightarrow> error + (bool \<times> world)" where
  "redis_set w key v =
     (if \<not> redis_up w then Inl ConnectionError
      else Inr (True, w\<lparr>redis_db := dict_set key (v, None) (redis_db w)\<rparr>))"

text \<open>\<open>RedisCache._get_file_path\<close>: \<open>/\<close>, \<open>:\<close> and \<open>?\<close> become \<open>_\<close>.\<close>

definition safe_key_char :: "char \<Rightarrow> char" where
  "safe_key_char c = (if c = CHR ''/'' \<or> c = CHR '':'' \<or> c = CHR ''?'' then CHR ''_'' else c)"

definition get_file_path :: "string \<Rightarrow> string" where
  "get_file_path key = TEMP_DIR @ ''/'' @ map safe_key_char key @ ''.cache''"

text \<open>
  \<open>RedisCache.get\<close>: the Redis tier first (an exception there is logged and absorbed),
  then the file tier, whose age is compared with the instance's \<open>self.ttl\<close>; an expired
  file is unlinked and \<open>None\<close> returned.
\<close>

definition RedisCache_get :: "world \<Rightarrow> int \<Rightarrow> string \<Rightarrow> pyval \<times> world" where
  "RedisCache_get w now key =
     (case (if use_redis w
            then (case redis_get w now key of Inr (Some v) \<Rightarrow> Some v | _ \<Rightarrow> None)
            else None) of
        Some v \<Rightarrow> (v, w)
      | None \<Rightarrow>
          (if \<not> fs_ok w then (PNone, w)
           else (case map_of (files w) (get_file_path key) of
                   None \<Rightarrow> (PNone, w)
                 | Some (v, mtime) \<Rightarrow>
                     (if 0 < ttl w \<and> seconds (ttl w) < now - mtime
                      then (PNone, w\<lparr>files := dict_del (get_file_path key) (files w)\<rparr>)
                      else (v, w)))))"

text \<open>
  \<open>RedisCache.set\<close>: the Redis write is attempted when \<open>use_redis\<close> (with \<open>SETEX\<close> when
  the ttl is positive); the file write is attempted always and sets \<open>success = True\<close>.
\<close>

definition RedisCache_set :: "world \<Rightarrow> int \<Rightarrow> string \<Rightarrow> pyval \<Rightarrow> int option \<Rightarrow> bool \<times> world" where
  "RedisCache_set w now key v ttl_arg =
     (let t = (case ttl_arg of None \<Rightarrow> ttl w | Some t' \<Rightarrow> t');
          r = (if use_redis w
               then (case (if 0 < t then redis_setex w now key t v else redis_set w key v) of
                       Inl e \<Rightarrow> (False, w)
                     | Inr sw \<Rightarrow> sw)
               else (False, w))
      in (if fs_ok (snd r)
          then (True, (snd r)\<lparr>files := dict_set (get_file_path key) (v, now) (files (snd r))\<rparr>)
          else r))"

definition RedisCache_set_all_categories :: "world \<Rightarrow> int \<Rightarrow> pyval \<Rightarrow> bool \<times> world" where
  "RedisCache_set_all_categories w now categories =
     RedisCache_set w now ''all_categories'' categories None"

definition RedisCache_get_all_categories :: "world \<Rightarrow> int \<Rightarrow> pyval \<times> world" where
  "RedisCache_get_all_categories w now =
     (let r = RedisCache_get w now ''all_categories'' in (py_or (fst r) (PDict []), snd r))"

definition RedisCache_set_category_data :: "world \<Rightarrow> int \<Rightarrow> string \<Rightarrow> pyval \<Rightarrow> bool \<times> world" where
  "RedisCache_set_category_data w now category data =
     RedisCache_set w now (''category:'' @ category) data None"

definition RedisCache_get_category_data :: "world \<Rightarrow> int \<Rightarrow> string \<Rightarrow> pyval \<times> world" where
  "RedisCache_get_category_data w now category =
     (let r = RedisCache_get w now (''category:'' @ category) in (py_or (fst r) (PList []), snd r))"

definition RedisCache_set_item_data :: "world \<Rightarrow> int \<Rightarrow> string \<Rightarrow> string \<Rightarrow> pyval \<Rightarrow> bool \<times> world" where
  "RedisCache_set_item_data w now category item_id data =
     RedisCache_set w now (''item:'' @ category @ '':'' @ item_id) data None"

definition RedisCache_get_item_data :: "world \<Rightarrow> int \<Rightarrow> string \<Rightarrow> string \<Rightarrow> pyval \<times> world" where
  "RedisCache_get_item_data w now category item_id =
     (let r = RedisCache_get w now (''item:'' @ category @ '':'' @ item_id)
      in (py_or (fst r) (PDict []), snd r))"

definition RedisCache_set_search_results :: "world \<Rightarrow> int \<Rightarrow> string \<Rightarrow> pyval \<Rightarrow> bool \<times> world" where
  "RedisCache_set_search_results w now query results =
     RedisCache_set w now (''search:'' @ query) results (Some SEARCH_CACHE_TTL)"

definition RedisCache_get_search_results :: "world \<Rightarrow> int \<Rightarrow> string \<Rightarrow> pyval \<times> world" where
  "RedisCache_get_search_results w now query =
     (let r = RedisCache_get w now (''search:'' @ query) in (py_or (fst r) (PList []), snd r))"

section \<open>Wiki routes (api/v1/wiki/router.py)\<close>

text \<open>
  Modelled from the spec: \<open>get_redis_sync\<close>, through which the handlers receive their
  \<open>redis\<close> argument, is imported from the cache module but not defined there. Following
  the specification's "global mutable singleton cache instance", the argument is the
  module-level \<open>redis_cache\<close> object, the one \<open>scrape_category_async\<close> uses directly;
  its state is part of \<open>world\<close>. \<open>DATA_DIR\<close> is \<open>settings.TEMP_DIR\<close>. The scraping
  collaborators \<open>scrape_category\<close> and \<open>get_page_metadata\<close> are parameters: a function
  from the name to the raised exception (\<open>Inl\<close>) or the returned data (\<open>Inr\<close>).
\<close>

datatype response =
    JSONResponse nat
  | CategoryResult string nat "pyval list"
  | WikiItemResponse pyval
  | SearchResult string nat "pyval list"

text \<open>
  \<open>WikiItem(**item_data)\<close> (api/schemas.py) is a pydantic model: building it validates
  and coerces every declared field, by rules that belong to the pydantic library and not to
  this repository. The constructor is therefore a parameter \<open>WikiItem\<close> of the handlers:
  a function from the record to the raised validation error (\<open>Inl\<close>) or to the data of
  the item that was built (\<open>Inr\<close>). Nothing is assumed about it.
\<close>

text \<open>The formatting loops: an item that fails validation is logged and left out.\<close>

fun format_items :: "(pyval \<Rightarrow> error + pyval) \<Rightarrow> pyval list \<Rightarrow> pyval list" where
  "format_items WikiItem [] = []"
| "format_items WikiItem (item_data # rest) =
     (case WikiItem item_data of
        Inr wiki_item \<Rightarrow> wiki_item # format_items WikiItem rest
      | Inl e \<Rightarrow> format_items WikiItem rest)"

text \<open>
  Calls of the item accessors as the router writes them, with a list of positional
  arguments. \<open>RedisCache.set_item_data(self, category, item_id, data)\<close> binds three
  arguments (a category and an item id, both strings, and the data) and
  \<open>RedisCache.get_item_data(self, category, item_id)\<close> two; any other number of
  arguments raises \<open>TypeError\<close> before the body runs.
\<close>

definition call_set_item_data :: "world \<Rightarrow> int \<Rightarrow> pyval list \<Rightarrow> error + (bool \<times> world)" where
  "call_set_item_data w now args =
     (case args of
        [PStr category, PStr item_id, data] \<Rightarrow>
          Inr (RedisCache_set_item_data w now category item_id data)
      | _ \<Rightarrow> Inl TypeError)"

definition call_get_item_data :: "world \<Rightarrow> int \<Rightarrow> pyval list \<Rightarrow> error + (pyval \<times> world)" where
  "call_get_item_data w now args =
     (case args of
        [PStr category, PStr item_id] \<Rightarrow> Inr (RedisCache_get_item_data w now category item_id)
      | _ \<Rightarrow> Inl TypeError)"

subsection \<open>Background refresh\<close>

text \<open>
  A \<open>BackgroundTasks\<close> object is the list of the category names whose \<open>_scrape\<close>
  closures were added, in order. \<open>scrape_category_async\<close> adds one, unconditionally.
\<close>

definition scrape_category_async :: "string \<Rightarrow> string list \<Rightarrow> string list" where
  "scrape_category_async category_name background_tasks = background_tasks @ [category_name]"

text \<open>Lines 93-94: each item is stored under its own key; the first exception leaves the loop.\<close>

fun set_items :: "world \<Rightarrow> int \<Rightarrow> (string \<times> pyval) list \<Rightarrow> error option \<times> world" where
  "set_items w now [] = (None, w)"
| "set_items w now ((title, item_data) # rest) =
     (case call_set_item_data w now [PStr title, item_data] of
        Inl e \<Rightarrow> (Some e, w)
      | Inr (ok, w') \<Rightarrow> set_items w' now rest)"

definition category_json_path :: "string \<Rightarrow> string" where
  "category_json_path category_name = TEMP_DIR @ ''/'' @ category_name @ ''.json''"

definition safe_title :: "string \<Rightarrow> string" where
  "safe_title title = map (\<lambda>c. if isalnum c then c else CHR ''_'') title"

definition item_json_path :: "string \<Rightarrow> string \<Rightarrow> string" where
  "item_json_path category_name title =
     TEMP_DIR @ ''/'' @ category_name @ ''/'' @ safe_title title @ ''.json''"

text \<open>Lines 101-120: the backup on disk, the category file and one file per item.\<close>

definition save_to_disk :: "world \<Rightarrow> int \<Rightarrow> string \<Rightarrow> (string \<times> pyval) list \<Rightarrow> world" where
  "save_to_disk w now category_name result =
     (if \<not> fs_ok w then w
      else w\<lparr>files :=
             fold (\<lambda>(title, item_data). dict_set (item_json_path category_name title) (item_data, now))
               result
               (dict_set (category_json_path category_name) (PDict result, now) (files w))\<rparr>)"

text \<open>The closure \<open>_scrape\<close> of \<open>scrape_category_async\<close> (lines 83-123).\<close>

definition scrape_job ::
  "(string \<Rightarrow> error + (string \<times> pyval) list) \<Rightarrow> int \<Rightarrow> string \<Rightarrow> world \<Rightarrow> world" where
  "scrape_job scrape_category now category_name w =
     (let w0 = w\<lparr>scrape_calls := scrape_calls w @ [category_name]\<rparr> in
      case scrape_category category_name of
        Inl e \<Rightarrow> w0
      | Inr result \<Rightarrow>
          (if result \<noteq> []
           then (let w1 = snd (RedisCache_set_category_data w0 now category_name (PDict result)) in
                 case set_items w1 now result of
                   (Some e, w2) \<Rightarrow> w2
                 | (None, w2) \<Rightarrow> save_to_disk w2 now category_name result)
           else save_to_disk w0 now category_name result))"

text \<open>The background tasks of a request run in the order they were added.\<close>

definition run_tasks ::
  "(string \<Rightarrow> error + (string \<times> pyval) list) \<Rightarrow> int \<Rightarrow> string list \<Rightarrow> world \<Rightarrow> world" where
  "run_tasks scrape_category now background_tasks w =
     fold (scrape_job scrape_category now) background_tasks w"

definition refresh_category :: "string \<Rightarrow> string list \<Rightarrow> (error + unit) \<times> string list" where
  "refresh_category category_name background_tasks =
     (if category_name \<notin> set (map fst CATEGORIES) \<and> category_name \<noteq> ''all''
      then (Inl (HTTPException 404), background_tasks)
      else if category_name = ''all''
      then (Inr (), fold scrape_category_async (map fst CATEGORIES) background_tasks)
      else (Inr (), scrape_category_async category_name background_tasks))"

subsection \<open>Category listing\<close>

text \<open>Lines 212-240: pagination over \<open>list(category_data.values())\<close>.\<close>

definition paginate ::
  "(pyval \<Rightarrow> error + pyval) \<Rightarrow> string \<Rightarrow> pyval \<Rightarrow> int \<Rightarrow> int \<Rightarrow> error + response" where
  "paginate WikiItem category_name category_data limit offset =
     (case category_data of
        PDict kvs \<Rightarrow>
          (let items_list = map snd kvs; total_items = length items_list in
           if int total_items \<le> offset
           then Inr (CategoryResult category_name total_items [])
           else Inr (CategoryResult category_name total_items
                       (format_items WikiItem (py_slice items_list offset (offset + limit)))))
      | _ \<Rightarrow> Inl AttributeError)"

text \<open>Lines 190-198: the snapshot file on disk, read when the cache gave nothing.\<close>

definition load_from_disk :: "world \<Rightarrow> string \<Rightarrow> pyval \<Rightarrow> pyval" where
  "load_from_disk w category_name category_data =
     (if \<not> fs_ok w then category_data
      else (case map_of (files w) (category_json_path category_name) of
              None \<Rightarrow> category_data
            | Some (v, mtime) \<Rightarrow> v))"

definition get_category_items ::
  "(pyval \<Rightarrow> error + pyval) \<Rightarrow> world \<Rightarrow> int \<Rightarrow> string list \<Rightarrow> string \<Rightarrow> int \<Rightarrow> int \<Rightarrow> bool
     \<Rightarrow> (error + response) \<times> string list \<times> world" where
  "get_category_items WikiItem w now background_tasks category_name limit offset refresh =
     (if category_name \<notin> set (map fst CATEGORIES)
      then (Inl (HTTPException 404), background_tasks, w)
      else
        (let r = (if \<not> refresh then RedisCache_get_category_data w now category_name
                  else (PNone, w));
             category_data = fst r; w1 = snd r
         in if \<not> truthy category_data \<or> refresh
            then (let bt1 = scrape_category_async category_name background_tasks;
                      category_data1 =
                        (if \<not> truthy category_data
                         then load_from_disk w1 category_name category_data
                         else category_data)
                  in if \<not> truthy category_data1
                     then (Inr (JSONResponse 202), bt1, w1)
                     else (paginate WikiItem category_name category_data1 limit offset, bt1, w1))
            else (paginate WikiItem category_name category_data limit offset,
                  background_tasks, w1)))"

subsection \<open>Item lookup\<close>

text \<open>\<open>needle in container\<close> for a string needle; \<open>None\<close> and integers are not containers.\<close>

definition py_contains :: "pyval \<Rightarrow> string \<Rightarrow> error + bool" where
  "py_contains container needle =
     (case container of
        PDict kvs \<Rightarrow> Inr (needle \<in> set (map fst kvs))
      | PList xs \<Rightarrow> Inr (PStr needle \<in> set xs)
      | PStr s \<Rightarrow> Inr (str_in needle s)
      | _ \<Rightarrow> Inl TypeError)"

text \<open>\<open>container[key]\<close> for a string key: only a dictionary can be indexed by a string.\<close>

definition py_getitem :: "pyval \<Rightarrow> string \<Rightarrow> error + pyval" where
  "py_getitem container key =
     (case container of
        PDict kvs \<Rightarrow> (case map_of kvs key of Some v \<Rightarrow> Inr v | None \<Rightarrow> Inl TypeError)
      | _ \<Rightarrow> Inl TypeError)"

text \<open>
  Lines 255-261: the scan over the categories in configuration order, leaving at the
  first category whose cached snapshot holds the title. The result is the new
  \<open>item_data\<close>, or the exception that left the loop.
\<close>

fun scan_categories ::
  "world \<Rightarrow> int \<Rightarrow> string \<Rightarrow> pyval \<Rightarrow> (string \<times> string) list \<Rightarrow> (error + pyval) \<times> world" where
  "scan_categories w now item_title item_data [] = (Inr item_data, w)"
| "scan_categories w now item_title item_data ((cat_key, cat_name) # rest) =
     (let r = RedisCache_get_category_data w now cat_key;
          category_data = fst r; w1 = snd r
      in if \<not> truthy category_data
         then scan_categories w1 now item_title item_data rest
         else (case py_contains category_data item_title of
                 Inl e \<Rightarrow> (Inl e, w1)
               | Inr False \<Rightarrow> scan_categories w1 now item_title item_data rest
               | Inr True \<Rightarrow>
                   (case py_getitem category_data item_title of
                      Inl e \<Rightarrow> (Inl e, w1)
                    | Inr found \<Rightarrow>
                        (case call_set_item_data w1 now [PStr item_title, found] of
                           Inl e \<Rightarrow> (Inl e, w1)
                         | Inr (ok, w2) \<Rightarrow> (Inr found, w2)))))"

text \<open>Lines 273-281: the fetched item is written to a file under every category directory.\<close>

definition save_item_everywhere :: "world \<Rightarrow> int \<Rightarrow> string \<Rightarrow> pyval \<Rightarrow> error + world" where
  "save_item_everywhere w now item_title item_data =
     (if \<not> fs_ok w then Inl OSError
      else Inr (w\<lparr>files :=
                  fold (\<lambda>category. dict_set (item_json_path category item_title) (item_data, now))
                    (map fst CATEGORIES) (files w)\<rparr>))"

text \<open>Lines 263-283: the direct fetch; the inner \<open>try\<close> logs and absorbs every exception,
  keeping whatever \<open>item_data\<close> was assigned before it.\<close>

definition fetch_item ::
  "(string \<Rightarrow> error + pyval) \<Rightarrow> world \<Rightarrow> int \<Rightarrow> string \<Rightarrow> pyval \<Rightarrow> pyval \<times> world" where
  "fetch_item get_page_metadata w now item_title item_data =
     (case get_page_metadata item_title of
        Inl e \<Rightarrow> (item_data, w)
      | Inr fetched \<Rightarrow>
          (if truthy fetched
           then (case call_set_item_data w now [PStr item_title, fetched] of
                   Inl e \<Rightarrow> (fetched, w)
                 | Inr (ok, w1) \<Rightarrow>
                     (case save_item_everywhere w1 now item_title fetched of
                        Inl e \<Rightarrow> (fetched, w1)
                      | Inr w2 \<Rightarrow> (fetched, w2)))
           else (fetched, w)))"

text \<open>The body of the outer \<open>try\<close> of \<open>get_item_details\<close> (lines 250-288).\<close>

definition get_item_details_body ::
  "(pyval \<Rightarrow> error + pyval) \<Rightarrow> (string \<Rightarrow> error + pyval) \<Rightarrow> world \<Rightarrow> int \<Rightarrow> string
     \<Rightarrow> (error + response) \<times> world" where
  "get_item_details_body WikiItem get_page_metadata w now item_title =
     (case call_get_item_data w now [PStr item_title] of
        Inl e \<Rightarrow> (Inl e, w)
      | Inr (item_data, w1) \<Rightarrow>
          (case (if \<not> truthy item_data
                 then scan_categories w1 now item_title item_data CATEGORIES
                 else (Inr item_data, w1)) of
             (Inl e, w2) \<Rightarrow> (Inl e, w2)
           | (Inr item_data2, w2) \<Rightarrow>
               (let r = (if \<not> truthy item_data2
                         then fetch_item get_page_metadata w2 now item_title item_data2
                         else (item_data2, w2));
                    item_data3 = fst r; w3 = snd r
                in if \<not> truthy item_data3 then (Inl (HTTPException 404), w3)
                   else (case WikiItem item_data3 of
                           Inl e \<Rightarrow> (Inl e, w3)
                         | Inr wiki_item \<Rightarrow> (Inr (WikiItemResponse wiki_item), w3)))))"

text \<open>The handlers' outer \<open>except\<close> clauses: an \<open>HTTPException\<close> is passed on, any other
  exception becomes status 500.\<close>

definition reraise :: "error + 'a \<Rightarrow> error + 'a" where
  "reraise r =
     (case r of
        Inl (HTTPException code) \<Rightarrow> Inl (HTTPException code)
      | Inl e \<Rightarrow> Inl (HTTPException 500)
      | Inr x \<Rightarrow> Inr x)"

definition get_item_details ::
  "(pyval \<Rightarrow> error + pyval) \<Rightarrow> (string \<Rightarrow> error + pyval) \<Rightarrow> world \<Rightarrow> int \<Rightarrow> string
     \<Rightarrow> (error + response) \<times> world" where
  "get_item_details WikiItem get_page_metadata w now item_title =
     (let r = get_item_details_body WikiItem get_page_metadata w now item_title
      in (reraise (fst r), snd r))"

subsection \<open>Search\<close>

text \<open>Line 302 and the key of \<open>get_search_results\<close> / \<open>set_search_results\<close>.\<close>

definition normalized_query :: "string \<Rightarrow> string" where
  "normalized_query query = strip (lower query)"

definition search_key :: "string \<Rightarrow> string" where
  "search_key query = ''search:'' @ normalized_query query"

text \<open>Iteration over a value: a list gives its elements, a dictionary its keys, a string
  its characters.\<close>

definition py_iter :: "pyval \<Rightarrow> error + pyval list" where
  "py_iter v =
     (case v of
        PList xs \<Rightarrow> Inr xs
      | PDict kvs \<Rightarrow> Inr (map (\<lambda>kv. PStr (fst kv)) kvs)
      | PStr s \<Rightarrow> Inr (map (\<lambda>c. PStr [c]) s)
      | _ \<Rightarrow> Inl TypeError)"

text \<open>\<open>item.get(key, default)\<close>: only a dictionary has \<open>get\<close>.\<close>

definition py_get :: "pyval \<Rightarrow> string \<Rightarrow> pyval \<Rightarrow> error + pyval" where
  "py_get item key dflt =
     (case item of
        PDict kvs \<Rightarrow> Inr (case map_of kvs key of Some v \<Rightarrow> v | None \<Rightarrow> dflt)
      | _ \<Rightarrow> Inl AttributeError)"

text \<open>Line 309: \<open>any(cat in item.get("categories", []) for cat in categories)\<close>.\<close>

fun any_category :: "pyval \<Rightarrow> string list \<Rightarrow> error + bool" where
  "any_category item [] = Inr False"
| "any_category item (cat # cats) =
     (case py_get item ''categories'' (PList []) of
        Inl e \<Rightarrow> Inl e
      | Inr c \<Rightarrow>
          (case py_contains c cat of
             Inl e \<Rightarrow> Inl e
           | Inr True \<Rightarrow> Inr True
           | Inr False \<Rightarrow> any_category item cats))"

fun filter_cached :: "string list \<Rightarrow> pyval list \<Rightarrow> error + pyval list" where
  "filter_cached categories [] = Inr []"
| "filter_cached categories (item # rest) =
     (case any_category item categories of
        Inl e \<Rightarrow> Inl e
      | Inr keep \<Rightarrow>
          (case filter_cached categories rest of
             Inl e \<Rightarrow> Inl e
           | Inr kept \<Rightarrow> Inr (if keep then item # kept else kept)))"

text \<open>\<open>value.lower()\<close> on a field: only a string has \<open>lower\<close>.\<close>

definition py_lower :: "pyval \<Rightarrow> error + string" where
  "py_lower v = (case v of PStr s \<Rightarrow> Inr (lower s) | _ \<Rightarrow> Inl AttributeError)"

text \<open>Lines 334-337: one section matches when the query is in its title or its content.\<close>

definition section_matches :: "string \<Rightarrow> pyval \<Rightarrow> error + bool" where
  "section_matches nq sec =
     (case py_get sec ''title'' (PStr []) of
        Inl e \<Rightarrow> Inl e
      | Inr t \<Rightarrow>
          (case py_lower t of
             Inl e \<Rightarrow> Inl e
           | Inr t_low \<Rightarrow>
               (if str_in nq t_low then Inr True
                else (case py_get sec ''content'' (PStr []) of
                        Inl e \<Rightarrow> Inl e
                      | Inr c \<Rightarrow>
                          (case py_lower c of
                             Inl e \<Rightarrow> Inl e
                           | Inr c_low \<Rightarrow> Inr (str_in nq c_low))))))"

fun any_section :: "string \<Rightarrow> pyval list \<Rightarrow> error + bool" where
  "any_section nq [] = Inr False"
| "any_section nq (sec # rest) =
     (case section_matches nq sec of
        Inl e \<Rightarrow> Inl e
      | Inr True \<Rightarrow> Inr True
      | Inr False \<Rightarrow> any_section nq rest)"

definition sections_match :: "string \<Rightarrow> pyval \<Rightarrow> error + bool" where
  "sections_match nq item_data =
     (case py_get item_data ''sections'' PNone of
        Inl e \<Rightarrow> Inl e
      | Inr s \<Rightarrow>
          (if truthy s
           then (case py_iter s of Inl e \<Rightarrow> Inl e | Inr sections \<Rightarrow> any_section nq sections)
           else Inr False))"

text \<open>Lines 324-337: title, then description, then sections.\<close>

definition item_matched :: "string \<Rightarrow> string \<Rightarrow> pyval \<Rightarrow> error + bool" where
  "item_matched nq title item_data =
     (if str_in nq (lower title) then Inr True
      else (case py_get item_data ''description'' PNone of
              Inl e \<Rightarrow> Inl e
            | Inr d \<Rightarrow>
                (if truthy d
                 then (case py_lower d of
                         Inl e \<Rightarrow> Inl e
                       | Inr d_low \<Rightarrow> (if str_in nq d_low then Inr True else sections_match nq item_data))
                 else sections_match nq item_data)))"

text \<open>Lines 341-344: the category key is added to the item's \<open>categories\<close> list.\<close>

definition add_category :: "string \<Rightarrow> pyval \<Rightarrow> error + pyval" where
  "add_category cat_key item_data =
     (case item_data of
        PDict kvs \<Rightarrow>
          (let kvs1 = (if ''categories'' \<notin> set (map fst kvs)
                       then dict_set ''categories'' (PList []) kvs else kvs)
           in case map_of kvs1 ''categories'' of
                None \<Rightarrow> Inl TypeError
              | Some c \<Rightarrow>
                  (case py_contains c cat_key of
                     Inl e \<Rightarrow> Inl e
                   | Inr True \<Rightarrow> Inr (PDict kvs1)
                   | Inr False \<Rightarrow>
                       (case c of
                          PList xs \<Rightarrow>
                            Inr (PDict (dict_set ''categories'' (PList (xs @ [PStr cat_key])) kvs1))
                        | _ \<Rightarrow> Inl AttributeError)))
      | _ \<Rightarrow> Inl TypeError)"

text \<open>Lines 323-346: the items of one category snapshot.\<close>

fun search_items_of ::
  "string \<Rightarrow> string \<Rightarrow> (string \<times> pyval) list \<Rightarrow> pyval list \<Rightarrow> error + pyval list" where
  "search_items_of nq cat_key [] results = Inr results"
| "search_items_of nq cat_key ((title, item_data) # rest) results =
     (case item_matched nq title item_data of
        Inl e \<Rightarrow> Inl e
      | Inr False \<Rightarrow> search_items_of nq cat_key rest results
      | Inr True \<Rightarrow>
          (case add_category cat_key item_data of
             Inl e \<Rightarrow> Inl e
           | Inr item_data' \<Rightarrow> search_items_of nq cat_key rest (results @ [item_data'])))"

text \<open>Lines 313-346: the categories in configuration order. The filter \<open>categories\<close> is a
  list of strings; \<open>None\<close> and the empty list are both falsy and are both \<open>[]\<close> here.\<close>

fun search_categories ::
  "world \<Rightarrow> int \<Rightarrow> string \<Rightarrow> string list \<Rightarrow> (string \<times> string) list \<Rightarrow> pyval list
     \<Rightarrow> (error + pyval list) \<times> world" where
  "search_categories w now nq categories [] results = (Inr results, w)"
| "search_categories w now nq categories ((cat_key, cat_name) # rest) results =
     (if categories \<noteq> [] \<and> cat_key \<notin> set categories \<and> cat_name \<notin> set categories
      then search_categories w now nq categories rest results
      else (let r = RedisCache_get_category_data w now cat_key;
                category_data = fst r; w1 = snd r
            in if \<not> truthy category_data
               then search_categories w1 now nq categories rest results
               else (case category_data of
                       PDict kvs \<Rightarrow>
                         (case search_items_of nq cat_key kvs results of
                            Inl e \<Rightarrow> (Inl e, w1)
                          | Inr results' \<Rightarrow> search_categories w1 now nq categories rest results')
                     | _ \<Rightarrow> (Inl AttributeError, w1))))"

text \<open>
  \<open>search_in_cache\<close> (lines 296-354). \<open>max_search_results\<close> stands for
  \<open>settings.MAX_SEARCH_RESULTS\<close>, a setting the configuration module does not declare.
\<close>

definition search_in_cache ::
  "int \<Rightarrow> world \<Rightarrow> int \<Rightarrow> string \<Rightarrow> string list \<Rightarrow> (error + pyval) \<times> world" where
  "search_in_cache max_search_results w now query categories =
     (let nq = normalized_query query;
          r = RedisCache_get_search_results w now nq;
          cache_results = fst r; w1 = snd r
      in if truthy cache_results
         then (if categories \<noteq> []
               then (case py_iter cache_results of
                       Inl e \<Rightarrow> (Inl e, w1)
                     | Inr cached \<Rightarrow>
                         (case filter_cached categories cached of
                            Inl e \<Rightarrow> (Inl e, w1)
                          | Inr kept \<Rightarrow> (Inr (PList kept), w1)))
               else (Inr cache_results, w1))
         else (case search_categories w1 now nq categories CATEGORIES [] of
                 (Inl e, w2) \<Rightarrow> (Inl e, w2)
               | (Inr results, w2) \<Rightarrow>
                   (let capped = py_slice results 0 max_search_results;
                        w3 = snd (RedisCache_set_search_results w2 now nq (PList capped))
                    in (Inr (PList capped), w3))))"

text \<open>Lines 373-389 of \<open>search_items\<close>: \<open>len\<close>, the slice and the formatting loop, on
  whatever \<open>search_in_cache\<close> returned.\<close>

definition search_page ::
  "(pyval \<Rightarrow> error + pyval) \<Rightarrow> string \<Rightarrow> pyval \<Rightarrow> int \<Rightarrow> int \<Rightarrow> error + response" where
  "search_page WikiItem q results limit offset =
     (case results of
        PList xs \<Rightarrow>
          Inr (SearchResult q (length xs)
                 (format_items WikiItem (py_slice xs offset (offset + limit))))
      | PStr s \<Rightarrow>
          Inr (SearchResult q (length s)
                 (format_items WikiItem
                    (map (\<lambda>c. PStr [c]) (py_slice s offset (offset + limit)))))
      | _ \<Rightarrow> Inl TypeError)"

definition search_items ::
  "(pyval \<Rightarrow> error + pyval) \<Rightarrow> int \<Rightarrow> world \<Rightarrow> int \<Rightarrow> string \<Rightarrow> string list \<Rightarrow> int \<Rightarrow> int
     \<Rightarrow> (error + response) \<times> world" where
  "search_items WikiItem max_search_results w now q categories limit offset =
     (if q = [] \<or> length (strip q) < 2 then (Inl (HTTPException 400), w)
      else (case search_in_cache max_search_results w now q categories of
              (Inl e, w1) \<Rightarrow> (Inl (HTTPException 500), w1)
            | (Inr results, w1) \<Rightarrow>
                (case search_page WikiItem q results limit offset of
                   Inl e \<Rightarrow> (Inl (HTTPException 500), w1)
                 | Inr page \<Rightarrow> (Inr page, w1))))"

section \<open>The normalization the specification describes\<close>

text \<open>
  The specification's search-key normalization, kept apart from the code's
  \<open>normalized_query\<close> to compare the two: lowercase, trim, and collapse every run of
  internal whitespace to one space.
\<close>

fun collapse_ws :: "string \<Rightarrow> string" where
  "collapse_ws [] = []"
| "collapse_ws [c] = [if is_space c then CHR '' '' else c]"
| "collapse_ws (c # d # rest) =
     (if is_space c
      then (if is_space d then collapse_ws (d # rest) else CHR '' '' # collapse_ws (d # rest))
      else c # collapse_ws (d # rest))"

definition spec_normalize :: "string \<Rightarrow> string" where
  "spec_normalize query = collapse_ws (strip (lower query))"

section \<open>Example states\<close>

text \<open>The default configuration (file cache only, \<open>REDIS_TTL = 3600\<close>) with nothing
  stored, and a snapshot of 25 well-formed items, used to run the handlers on concrete
  inputs.\<close>

definition empty_world :: world where
  "empty_world =
     \<lparr>use_redis = False, ttl = 3600, redis_up = False, redis_db = [], fs_ok = True,
      files = [], scrape_calls = []\<rparr>"

definition example_item :: "string \<Rightarrow> string \<times> pyval" where
  "example_item t =
     (t, PDict [(''title'', PStr t), (''url'', PStr (''https://cyberpunk.fandom.com/wiki/'' @ t))])"

definition example_snapshot :: "(string \<times> pyval) list" where
  "example_snapshot = map (\<lambda>c. example_item [c]) ''ABCDEFGHIJKLMNOPQRSTUVWXY''"

text \<open>Scraping collaborators for the examples: a scrape that finds nothing, a scrape that
  finds one character, and a page fetch that always succeeds.\<close>

definition scrape_nothing :: "string \<Rightarrow> error + (string \<times> pyval) list" where
  "scrape_nothing category_name = Inr []"

definition scrape_example :: "string \<Rightarrow> error + (string \<times> pyval) list" where
  "scrape_example category_name = Inr [example_item ''Johnny Silverhand'']"

definition fetch_example :: "string \<Rightarrow> error + pyval" where
  "fetch_example title = Inr (snd (example_item title))"

text \<open>
  The outcome of \<open>WikiItem(**item_data)\<close> on the records of the examples. The records
  of \<open>example_snapshot\<close> carry a string under each of the two required fields \<open>title\<close>
  and \<open>url\<close> and nothing else, so the item is built (it is represented by the record);
  the record without \<open>url\<close> used below is refused. This is a table for the examples, not a
  description of the constructor: every record outside \<open>example_snapshot\<close> is refused.
\<close>

definition example_validation :: "pyval \<Rightarrow> error + pyval" where
  "example_validation item_data =
     (if item_data \<in> set (map snd example_snapshot) then Inr item_data
      else Inl ValidationError)"

text \<open>The example snapshot with the \<open>url\<close> of its last record removed.\<close>

definition broken_snapshot :: "(string \<times> pyval) list" where
  "broken_snapshot = butlast example_snapshot @ [(''Y'', PDict [(''title'', PStr ''Y'')])]"

section \<open>Basic facts\<close>

lemma map_of_dict_set:
  "map_of (dict_set k v al) k' = (if k' = k then Some v else map_of al k')"
  by (induction al) auto

lemma map_of_dict_del:
  "map_of (dict_del k al) k' = (if k' = k then None else map_of al k')"
  by (induction al) auto

lemma snd_RedisCache_set:
  "snd (RedisCache_set w now key v ttl_arg) =
     w\<lparr>redis_db :=
          (if use_redis w \<and> redis_up w
           then dict_set key
                  (v, if 0 < (case ttl_arg of None \<Rightarrow> ttl w | Some t' \<Rightarrow> t')
                      then Some (now + seconds (case ttl_arg of None \<Rightarrow> ttl w | Some t' \<Rightarrow> t'))
                      else None)
                  (redis_db w)
           else redis_db w),
        files :=
          (if fs_ok w then dict_set (get_file_path key) (v, now) (files w) else files w)\<rparr>"
  by (simp add: RedisCache_set_def redis_setex_def redis_set_def Let_def)

lemma fst_RedisCache_set:
  "fst (RedisCache_set w now key v ttl_arg) = (use_redis w \<and> redis_up w \<or> fs_ok w)"
  by (simp add: RedisCache_set_def redis_setex_def redis_set_def Let_def)

section \<open>The tiered cache: what a write reports\<close>

text \<open>
  Claim C4. \<open>set(key, value, ttl)\<close> reports failure exactly when the write failed on both
  tiers. A tier's write goes through when its client does not raise (Redis: in use and up;
  file: the file operation succeeds), and then the tier holds the value under the key: Redis
  with the expiry the ttl gives, the file with the time of the write. A write that fails
  leaves its tier as it was. So a reported success means the value is stored in at least
  one tier, a reported failure means nothing was stored and nothing changed, and a Redis
  failure with a successful file write is a success. Entries under other keys are not
  touched.
\<close>

theorem set_fails_iff_both_tiers_fail:
  "(use_redis w \<and> redis_up w \<longrightarrow>
      fst (RedisCache_set w now key v ttl_arg)
      \<and> map_of (redis_db (snd (RedisCache_set w now key v ttl_arg))) key
          = Some (v, if 0 < (case ttl_arg of None \<Rightarrow> ttl w | Some t' \<Rightarrow> t')
                     then Some (now + seconds (case ttl_arg of None \<Rightarrow> ttl w | Some t' \<Rightarrow> t'))
                     else None))
   \<and> (\<not> (use_redis w \<and> redis_up w) \<longrightarrow>
        redis_db (snd (RedisCache_set w now key v ttl_arg)) = redis_db w)
   \<and> (fs_ok w \<longrightarrow>
        fst (RedisCache_set w now key v ttl_arg)
        \<and> map_of (files (snd (RedisCache_set w now key v ttl_arg))) (get_file_path key)
            = Some (v, now))
   \<and> (\<not> fs_ok w \<longrightarrow> files (snd (RedisCache_set w now key v ttl_arg)) = files w)
   \<and> (fst (RedisCache_set w now key v ttl_arg) = False)
       = (\<not> (use_redis w \<and> redis_up w) \<and> \<not> fs_ok w)
   \<and> (fst (RedisCache_set w now key v ttl_arg) \<longrightarrow>
        (\<exists>e. map_of (redis_db (snd (RedisCache_set w now key v ttl_arg))) key = Some (v, e))
        \<or> map_of (files (snd (RedisCache_set w now key v ttl_arg))) (get_file_path key)
            = Some (v, now))
   \<and> (fst (RedisCache_set w now key v ttl_arg) = False \<longrightarrow>
        snd (RedisCache_set w now key v ttl_arg) = w)
   \<and> (k' \<noteq> key \<longrightarrow>
        map_of (redis_db (snd (RedisCache_set w now key v ttl_arg))) k' = map_of (redis_db w) k')
   \<and> (p \<noteq> get_file_path key \<longrightarrow>
        map_of (files (snd (RedisCache_set w now key v ttl_arg))) p = map_of (files w) p)"
  by (auto simp add: snd_RedisCache_set fst_RedisCache_set map_of_dict_set)

theorem set_fails_iff_both_tiers_fail_witness:
  "RedisCache_set
     \<lparr>use_redis = True, ttl = 3600, redis_up = False, redis_db = [], fs_ok = True,
      files = [], scrape_calls = []\<rparr> 7 ''k'' (PStr ''v'') (Some 1)
     = (True,
        \<lparr>use_redis = True, ttl = 3600, redis_up = False, redis_db = [], fs_ok = True,
         files = [(get_file_path ''k'', PStr ''v'', 7)], scrape_calls = []\<rparr>)
   \<and> RedisCache_set
     \<lparr>use_redis = True, ttl = 3600, redis_up = True, redis_db = [], fs_ok = False,
      files = [], scrape_calls = []\<rparr> 7 ''k'' (PStr ''v'') (Some 1)
     = (True,
        \<lparr>use_redis = True, ttl = 3600, redis_up = True,
         redis_db = [(''k'', PStr ''v'', Some (7 + seconds 1))], fs_ok = False,
         files = [], scrape_calls = []\<rparr>)
   \<and> RedisCache_set
     \<lparr>use_redis = True, ttl = 3600, redis_up = False, redis_db = [], fs_ok = False,
      files = [], scrape_calls = []\<rparr> 7 ''k'' (PStr ''v'') (Some 1)
     = (False,
        \<lparr>use_redis = True, ttl = 3600, redis_up = False, redis_db = [], fs_ok = False,
         files = [], scrape_calls = []\<rparr>)"
proof -
  let ?file_only = "\<lparr>use_redis = True, ttl = 3600, redis_up = False, redis_db = [], fs_ok = True,
                     files = [], scrape_calls = []\<rparr>"
  let ?redis_only = "\<lparr>use_redis = True, ttl = 3600, redis_up = True, redis_db = [], fs_ok = False,
                      files = [], scrape_calls = []\<rparr>"
  let ?neither = "\<lparr>use_redis = True, ttl = 3600, redis_up = False, redis_db = [], fs_ok = False,
                   files = [], scrape_calls = []\<rparr>"
  have a: "fst (RedisCache_set ?file_only 7 ''k'' (PStr ''v'') (Some 1))"
    using set_fails_iff_both_tiers_fail [of ?file_only 7 "''k''" "PStr ''v''" "Some 1"]
    by simp
  have b: "fst (RedisCache_set ?redis_only 7 ''k'' (PStr ''v'') (Some 1))"
    using set_fails_iff_both_tiers_fail [of ?redis_only 7 "''k''" "PStr ''v''" "Some 1"]
    by simp
  have c: "RedisCache_set ?neither 7 ''k'' (PStr ''v'') (Some 1) = (False, ?neither)"
    using set_fails_iff_both_tiers_fail [of ?neither 7 "''k''" "PStr ''v''" "Some 1"]
    by (simp add: prod_eq_iff)
  have a': "snd (RedisCache_set ?file_only 7 ''k'' (PStr ''v'') (Some 1))
              = ?file_only\<lparr>files := [(get_file_path ''k'', PStr ''v'', 7)]\<rparr>"
    by (simp add: snd_RedisCache_set)
  have b': "snd (RedisCache_set ?redis_only 7 ''k'' (PStr ''v'') (Some 1))
              = ?redis_only\<lparr>redis_db := [(''k'', PStr ''v'', Some (7 + seconds 1))]\<rparr>"
    by (simp add: snd_RedisCache_set)
  from a a' b b' c show ?thesis by (simp add: prod_eq_iff)
qed

section \<open>The tiered cache: round trip and expiry\<close>




section \<open>Category listing\<close>

text \<open>
  Claim C8. A category key outside the configured \<open>CATEGORIES\<close> is answered with status
  404 before anything else happens: the answer does not depend on the state, the state is
  returned as it was (no cache read, no file read) and no background task is added. The
  category set is the constant \<open>CATEGORIES\<close>.
\<close>

theorem unknown_category_not_found:
  "category_name \<notin> set (map fst CATEGORIES) \<Longrightarrow>
     get_category_items WikiItem w now background_tasks category_name limit offset refresh
       = (Inl (HTTPException 404), background_tasks, w)"
  by (simp add: get_category_items_def)

theorem unknown_category_not_found_witness:
  "''cyberware'' \<notin> set (map fst CATEGORIES)
   \<and> get_category_items example_validation
        \<lparr>use_redis = True, ttl = 3600, redis_up = True,
         redis_db = [(''category:cyberware'', PDict [example_item ''Kiroshi Optics''], None)],
         fs_ok = True, files = [], scrape_calls = []\<rparr> 0 [] ''cyberware'' 10 0 True
       = (Inl (HTTPException 404), [],
          \<lparr>use_redis = True, ttl = 3600, redis_up = True,
           redis_db = [(''category:cyberware'', PDict [example_item ''Kiroshi Optics''], None)],
           fs_ok = True, files = [], scrape_calls = []\<rparr>)"
proof -
  have h: "''cyberware'' \<notin> set (map fst CATEGORIES)"
    by (simp add: CATEGORIES_def)
  from h unknown_category_not_found [OF h] show ?thesis by simp
qed

text \<open>The snapshot files on disk are not cache files: a cache read leaves them alone.\<close>

lemma cache_path_not_json_path: "get_file_path key \<noteq> category_json_path category_name"
proof
  assume "get_file_path key = category_json_path category_name"
  then have "last (get_file_path key) = last (category_json_path category_name)"
    by simp
  then show False
    by (simp add: get_file_path_def category_json_path_def)
qed

lemma json_file_after_get:
  "map_of (files (snd (RedisCache_get w now key))) (category_json_path category_name)
     = map_of (files w) (category_json_path category_name)"
  using cache_path_not_json_path [of key category_name]
  by (auto simp add: RedisCache_get_def map_of_dict_del split: option.splits sum.splits)

lemma fs_ok_after_get: "fs_ok (snd (RedisCache_get w now key)) = fs_ok w"
  by (auto simp add: RedisCache_get_def split: option.splits sum.splits)

lemma load_from_disk_after_get:
  "load_from_disk (snd (RedisCache_get w now key)) category_name category_data
     = (if \<not> fs_ok w then category_data
        else (case map_of (files w) (category_json_path category_name) of
                None \<Rightarrow> category_data
              | Some (v, mtime) \<Rightarrow> v))"
  by (simp add: load_from_disk_def json_file_after_get fs_ok_after_get)

lemma format_items_filter:
  "format_items WikiItem xs
     = map (\<lambda>i. projr (WikiItem i)) (filter (\<lambda>i. \<not> isl (WikiItem i)) xs)"
  by (induction xs) (auto split: sum.splits)

lemma py_slice_nonneg:
  assumes "0 \<le> offset" and "0 \<le> limit"
  shows "py_slice xs offset (offset + limit) = take (nat limit) (drop (nat offset) xs)"
proof -
  have n: "nat (offset + limit) - nat offset = nat limit"
    using assms by (simp add: nat_add_distrib)
  show ?thesis
  proof (cases "int (length xs) < offset")
    case True
    then show ?thesis using assms by (simp add: py_slice_def py_clamp_def Let_def)
  next
    case False
    show ?thesis
    proof (cases "int (length xs) < offset + limit")
      case True
      with False assms have "length xs - nat offset \<le> nat limit" by linarith
      with True False assms show ?thesis
        by (simp add: py_slice_def py_clamp_def Let_def)
    next
      case F2: False
      with False assms n show ?thesis
        by (simp add: py_slice_def py_clamp_def Let_def)
    qed
  qed
qed

lemma paginate_page:
  assumes "0 \<le> offset" and "0 \<le> limit"
  shows "paginate WikiItem category_name (PDict kvs) limit offset =
           Inr (CategoryResult category_name (length kvs)
                  (map (\<lambda>i. projr (WikiItem i))
                     (filter (\<lambda>i. \<not> isl (WikiItem i))
                        (take (nat limit) (drop (nat offset) (map snd kvs))))))"
  using assms
  by (simp add: paginate_def Let_def py_slice_nonneg format_items_filter)

lemma paginate_beyond:
  "int (length kvs) \<le> offset \<Longrightarrow>
     paginate WikiItem category_name (PDict kvs) limit offset
       = Inr (CategoryResult category_name (length kvs) [])"
  by (simp add: paginate_def Let_def)

lemma get_category_items_resolved:
  assumes "category_name \<in> set (map fst CATEGORIES)"
    and "(\<not> refresh \<and> fst (RedisCache_get_category_data w now category_name) = PDict kvs)
         \<or> ((refresh \<or> \<not> truthy (fst (RedisCache_get_category_data w now category_name)))
             \<and> fs_ok w
             \<and> map_of (files w) (category_json_path category_name) = Some (PDict kvs, mtime))"
    and "kvs \<noteq> []"
  shows "fst (get_category_items WikiItem w now background_tasks category_name limit offset refresh)
           = paginate WikiItem category_name (PDict kvs) limit offset"
proof -
  have s: "snd (RedisCache_get_category_data w now category_name)
             = snd (RedisCache_get w now (''category:'' @ category_name))"
    by (simp add: RedisCache_get_category_data_def Let_def)
  from assms(2) show ?thesis
  proof
    assume "\<not> refresh \<and> fst (RedisCache_get_category_data w now category_name) = PDict kvs"
    with assms(1,3) show ?thesis
      by (simp add: get_category_items_def Let_def)
  next
    assume d: "(refresh \<or> \<not> truthy (fst (RedisCache_get_category_data w now category_name)))
               \<and> fs_ok w
               \<and> map_of (files w) (category_json_path category_name) = Some (PDict kvs, mtime)"
    then have l1: "load_from_disk w category_name x = PDict kvs" for x
      by (simp add: load_from_disk_def)
    from d have l2: "load_from_disk (snd (RedisCache_get_category_data w now category_name))
                       category_name x = PDict kvs" for x
      by (simp add: s load_from_disk_after_get)
    from d assms(1,3) l1 l2 show ?thesis
      by (auto simp add: get_category_items_def Let_def)
  qed
qed

text \<open>
  Claim C7, as stated, fails: the formatting loop builds a \<open>WikiItem\<close> from every record
  of the page and leaves out the ones that are refused. With 25 cached records of which the
  last has no \<open>url\<close>, \<open>limit=10, offset=20\<close> returns 4 items, not the last 5.
\<close>

theorem invalid_record_shortens_page:
  "length broken_snapshot = 25
   \<and> fst (get_category_items example_validation
            (snd (RedisCache_set_category_data empty_world 0 ''characters''
                    (PDict broken_snapshot)))
            5 [] ''characters'' 10 20 False)
       = Inr (CategoryResult ''characters'' 25
                [snd (example_item ''U''), snd (example_item ''V''), snd (example_item ''W''),
                 snd (example_item ''X'')])"
  by code_simp

text \<open>
  Claim C7, amended. Whatever snapshot the handler resolved (the cached one, or the one
  on disk when the cache gave nothing or a refresh was forced), the page is cut from the
  values of its item mapping in insertion order, and the response carries, in that order,
  the items built from the records of the page that pass the \<open>WikiItem\<close> validation; a
  record that fails is left out. For a non-negative offset and limit the page is \<open>limit\<close>
  values after the first \<open>offset\<close>; an offset at or beyond the item count gives no items
  with the full count as total; with 25 items \<open>limit=10, offset=20\<close> gives the items of
  the last 5 records that validate, all 5 when they all do, and total 25.
\<close>

theorem pagination_by_insertion_order:
  assumes "category_name \<in> set (map fst CATEGORIES)"
    and "(\<not> refresh \<and> fst (RedisCache_get_category_data w now category_name) = PDict kvs)
         \<or> ((refresh \<or> \<not> truthy (fst (RedisCache_get_category_data w now category_name)))
             \<and> fs_ok w
             \<and> map_of (files w) (category_json_path category_name) = Some (PDict kvs, mtime))"
    and "kvs \<noteq> []"
  shows
    "(0 \<le> offset \<and> 0 \<le> limit \<longrightarrow>
        fst (get_category_items WikiItem w now background_tasks category_name limit offset refresh) =
          Inr (CategoryResult category_name (length kvs)
                 (map (\<lambda>i. projr (WikiItem i))
                    (filter (\<lambda>i. \<not> isl (WikiItem i))
                       (take (nat limit) (drop (nat offset) (map snd kvs)))))))
     \<and> (int (length kvs) \<le> offset \<longrightarrow>
        fst (get_category_items WikiItem w now background_tasks category_name limit offset refresh) =
          Inr (CategoryResult category_name (length kvs) []))
     \<and> (length kvs = 25 \<longrightarrow>
        fst (get_category_items WikiItem w now background_tasks category_name 10 20 refresh) =
          Inr (CategoryResult category_name 25
                 (map (\<lambda>i. projr (WikiItem i))
                    (filter (\<lambda>i. \<not> isl (WikiItem i)) (drop 20 (map snd kvs)))))
        \<and> length (drop 20 (map snd kvs)) = 5
        \<and> ((\<forall>i \<in> set (drop 20 (map snd kvs)). \<not> isl (WikiItem i)) \<longrightarrow>
             fst (get_category_items WikiItem w now background_tasks category_name 10 20 refresh) =
               Inr (CategoryResult category_name 25
                      (map (\<lambda>i. projr (WikiItem i)) (drop 20 (map snd kvs))))))"
proof -
  have r: "fst (get_category_items WikiItem w now background_tasks category_name l off refresh) =
             paginate WikiItem category_name (PDict kvs) l off" for l off
    using assms by (rule get_category_items_resolved)
  have a: "0 \<le> offset \<and> 0 \<le> limit \<longrightarrow>
        fst (get_category_items WikiItem w now background_tasks category_name limit offset refresh) =
          Inr (CategoryResult category_name (length kvs)
                 (map (\<lambda>i. projr (WikiItem i))
                    (filter (\<lambda>i. \<not> isl (WikiItem i))
                       (take (nat limit) (drop (nat offset) (map snd kvs))))))"
    by (simp add: r paginate_page)
  have b: "int (length kvs) \<le> offset \<longrightarrow>
        fst (get_category_items WikiItem w now background_tasks category_name limit offset refresh) =
          Inr (CategoryResult category_name (length kvs) [])"
    by (simp add: r paginate_beyond)
  have c1: "length kvs = 25 \<longrightarrow>
        fst (get_category_items WikiItem w now background_tasks category_name 10 20 refresh) =
          Inr (CategoryResult category_name 25
                 (map (\<lambda>i. projr (WikiItem i))
                    (filter (\<lambda>i. \<not> isl (WikiItem i)) (drop 20 (map snd kvs)))))"
    using paginate_page [of 20 10 WikiItem category_name kvs] by (simp add: r)
  have c2: "length kvs = 25 \<longrightarrow> length (drop 20 (map snd kvs)) = 5"
    by simp
  have f: "(\<forall>i \<in> set xs. \<not> isl (WikiItem i)) \<longrightarrow> filter (\<lambda>i. \<not> isl (WikiItem i)) xs = xs" for xs
    by (induction xs) auto
  from c1 f [of "drop 20 (map snd kvs)"]
  have c3: "length kvs = 25 \<longrightarrow>
        ((\<forall>i \<in> set (drop 20 (map snd kvs)). \<not> isl (WikiItem i)) \<longrightarrow>
             fst (get_category_items WikiItem w now background_tasks category_name 10 20 refresh) =
               Inr (CategoryResult category_name 25
                      (map (\<lambda>i. projr (WikiItem i)) (drop 20 (map snd kvs)))))"
    by auto
  from a b c1 c2 c3 show ?thesis by blast
qed

lemma length_example: "length example_snapshot = 25"
  by (simp add: example_snapshot_def)

lemma example_cached:
  "RedisCache_get_category_data
     (snd (RedisCache_set_category_data empty_world 0 ''characters'' (PDict example_snapshot)))
     5 ''characters''
   = (PDict example_snapshot,
      snd (RedisCache_set_category_data empty_world 0 ''characters'' (PDict example_snapshot)))"
proof -
  have "example_snapshot \<noteq> []" using length_example by auto
  then show ?thesis
    by (simp add: RedisCache_get_category_data_def RedisCache_set_category_data_def
          snd_RedisCache_set RedisCache_get_def empty_world_def py_or_def seconds_def)
qed

theorem pagination_by_insertion_order_witness:
  "fst (get_category_items example_validation
          (snd (RedisCache_set_category_data empty_world 0 ''characters'' (PDict example_snapshot)))
          5 [] ''characters'' 10 20 False)
     = Inr (CategoryResult ''characters'' 25
              [snd (example_item ''U''), snd (example_item ''V''), snd (example_item ''W''),
               snd (example_item ''X''), snd (example_item ''Y'')])
   \<and> fst (get_category_items example_validation
          (snd (RedisCache_set_category_data empty_world 0 ''characters'' (PDict example_snapshot)))
          5 [] ''characters'' 10 30 False)
     = Inr (CategoryResult ''characters'' 25 [])"
proof -
  let ?w = "snd (RedisCache_set_category_data empty_world 0 ''characters''
                   (PDict example_snapshot))"
  have h1: "''characters'' \<in> set (map fst CATEGORIES)"
    by (simp add: CATEGORIES_def)
  have ne: "example_snapshot \<noteq> []" using length_example by auto
  have h2: "(\<not> False \<and> fst (RedisCache_get_category_data ?w 5 ''characters'') = PDict example_snapshot)
            \<or> ((False \<or> \<not> truthy (fst (RedisCache_get_category_data ?w 5 ''characters'')))
                \<and> fs_ok ?w
                \<and> map_of (files ?w) (category_json_path ''characters'')
                    = Some (PDict example_snapshot, 0))"
    by (simp add: example_cached)
  have d: "drop 20 (map snd example_snapshot)
             = [snd (example_item ''U''), snd (example_item ''V''), snd (example_item ''W''),
                snd (example_item ''X''), snd (example_item ''Y'')]"
    by (simp add: example_snapshot_def)
  have v: "\<forall>i \<in> set (drop 20 (map snd example_snapshot)). \<not> isl (example_validation i)"
    by (simp add: d) (simp add: example_validation_def example_snapshot_def)
  have p: "map (\<lambda>i. projr (example_validation i)) (drop 20 (map snd example_snapshot))
             = drop 20 (map snd example_snapshot)"
    by (simp add: d) (simp add: example_validation_def example_snapshot_def)
  have p20: "fst (get_category_items example_validation ?w 5 [] ''characters'' 10 20 False)
     = Inr (CategoryResult ''characters'' 25 (drop 20 (map snd example_snapshot)))"
    using pagination_by_insertion_order [OF h1 h2 ne, of 20 10 example_validation "[]"]
          length_example v p
    by simp
  have p30: "fst (get_category_items example_validation ?w 5 [] ''characters'' 10 30 False)
     = Inr (CategoryResult ''characters'' 25 [])"
    using pagination_by_insertion_order [OF h1 h2 ne, of 30 10 example_validation "[]"]
          length_example
    by simp
  from p20 p30 d show ?thesis by simp
qed

text \<open>
  Claim C10. A cached value that is empty is read like an absent one: whenever the
  underlying \<open>get\<close> gives a falsy value (\<open>None\<close> for an absent entry, or an empty mapping,
  list or string that was cached), each getter returns its empty default; so the category
  getter returns \<open>[]\<close> both when Redis holds an empty value under the key and when
  neither tier holds anything. For a configured
  category in that situation, \<open>get_category_items\<close> without \<open>refresh\<close> is a miss: it adds
  the background scrape for the category and answers from the snapshot file on disk when
  the file can be read and holds a non-empty snapshot (the page cut from that snapshot), and
  with status 202 when the file cannot be read, is not there or holds nothing. The cache
  read may have deleted an expired cache file; nothing else changes.
\<close>

theorem empty_cached_value_is_miss:
  "(\<not> truthy (fst (RedisCache_get w now (''category:'' @ category))) \<longrightarrow>
      fst (RedisCache_get_category_data w now category) = PList [])
   \<and> (\<not> truthy (fst (RedisCache_get w now (''item:'' @ category @ '':'' @ item_id))) \<longrightarrow>
      fst (RedisCache_get_item_data w now category item_id) = PDict [])
   \<and> (\<not> truthy (fst (RedisCache_get w now ''all_categories'')) \<longrightarrow>
      fst (RedisCache_get_all_categories w now) = PDict [])
   \<and> (\<not> truthy (fst (RedisCache_get w now (''search:'' @ query))) \<longrightarrow>
      fst (RedisCache_get_search_results w now query) = PList [])
   \<and> (use_redis w \<and> redis_up w
       \<and> map_of (redis_db w) (''category:'' @ category) = Some (v, None)
       \<and> \<not> truthy v \<longrightarrow>
      RedisCache_get_category_data w now category = (PList [], w))
   \<and> (\<not> use_redis w \<and> fs_ok w
       \<and> map_of (files w) (get_file_path (''category:'' @ category)) = None \<longrightarrow>
      RedisCache_get_category_data w now category = (PList [], w))
   \<and> (category \<in> set (map fst CATEGORIES)
       \<and> \<not> truthy (fst (RedisCache_get w now (''category:'' @ category)))
       \<and> fs_ok w
       \<and> map_of (files w) (category_json_path category) = Some (d, mtime)
       \<and> truthy d \<longrightarrow>
      get_category_items WikiItem w now background_tasks category limit offset False =
        (paginate WikiItem category d limit offset,
         background_tasks @ [category],
         snd (RedisCache_get w now (''category:'' @ category))))
   \<and> (category \<in> set (map fst CATEGORIES)
       \<and> \<not> truthy (fst (RedisCache_get w now (''category:'' @ category)))
       \<and> (\<not> fs_ok w
           \<or> map_of (files w) (category_json_path category) = None
           \<or> (\<exists>d' mtime'. map_of (files w) (category_json_path category) = Some (d', mtime')
                          \<and> \<not> truthy d')) \<longrightarrow>
      get_category_items WikiItem w now background_tasks category limit offset False =
        (Inr (JSONResponse 202),
         background_tasks @ [category],
         snd (RedisCache_get w now (''category:'' @ category))))"
proof -
  have g: "\<not> truthy (fst (RedisCache_get w now (''category:'' @ category))) \<Longrightarrow>
           RedisCache_get_category_data w now category
             = (PList [], snd (RedisCache_get w now (''category:'' @ category)))"
    by (simp add: RedisCache_get_category_data_def py_or_def Let_def)
  have getters:
    "(\<not> truthy (fst (RedisCache_get w now (''category:'' @ category))) \<longrightarrow>
        fst (RedisCache_get_category_data w now category) = PList [])
     \<and> (\<not> truthy (fst (RedisCache_get w now (''item:'' @ category @ '':'' @ item_id))) \<longrightarrow>
        fst (RedisCache_get_item_data w now category item_id) = PDict [])
     \<and> (\<not> truthy (fst (RedisCache_get w now ''all_categories'')) \<longrightarrow>
        fst (RedisCache_get_all_categories w now) = PDict [])
     \<and> (\<not> truthy (fst (RedisCache_get w now (''search:'' @ query))) \<longrightarrow>
        fst (RedisCache_get_search_results w now query) = PList [])"
    by (simp add: RedisCache_get_category_data_def RedisCache_get_item_data_def
          RedisCache_get_all_categories_def RedisCache_get_search_results_def py_or_def Let_def)
  have stores:
    "(use_redis w \<and> redis_up w
       \<and> map_of (redis_db w) (''category:'' @ category) = Some (v, None)
       \<and> \<not> truthy v \<longrightarrow>
      RedisCache_get_category_data w now category = (PList [], w))
     \<and> (\<not> use_redis w \<and> fs_ok w
       \<and> map_of (files w) (get_file_path (''category:'' @ category)) = None \<longrightarrow>
      RedisCache_get_category_data w now category = (PList [], w))"
    by (simp add: RedisCache_get_category_data_def RedisCache_get_def redis_get_def py_or_def
          Let_def)
  have disk:
    "category \<in> set (map fst CATEGORIES)
       \<and> \<not> truthy (fst (RedisCache_get w now (''category:'' @ category)))
       \<and> fs_ok w
       \<and> map_of (files w) (category_json_path category) = Some (d, mtime)
       \<and> truthy d \<longrightarrow>
      get_category_items WikiItem w now background_tasks category limit offset False =
        (paginate WikiItem category d limit offset,
         background_tasks @ [category],
         snd (RedisCache_get w now (''category:'' @ category)))"
    by (simp add: get_category_items_def g Let_def load_from_disk_after_get
          scrape_category_async_def)
  have pending:
    "category \<in> set (map fst CATEGORIES)
       \<and> \<not> truthy (fst (RedisCache_get w now (''category:'' @ category)))
       \<and> (\<not> fs_ok w
           \<or> map_of (files w) (category_json_path category) = None
           \<or> (\<exists>d' mtime'. map_of (files w) (category_json_path category) = Some (d', mtime')
                          \<and> \<not> truthy d')) \<longrightarrow>
      get_category_items WikiItem w now background_tasks category limit offset False =
        (Inr (JSONResponse 202),
         background_tasks @ [category],
         snd (RedisCache_get w now (''category:'' @ category)))"
    by (auto simp add: get_category_items_def g Let_def load_from_disk_after_get
          scrape_category_async_def)
  from getters stores disk pending show ?thesis by blast
qed

text \<open>
  The witness: Redis holds an empty mapping for \<open>characters\<close>. The getter returns \<open>[]\<close>,
  as it does on the state with nothing stored. With the example snapshot in
  \<open>characters.json\<close> the handler queues the scrape and serves the first records from the
  file; without the file it queues the scrape and answers 202.
\<close>

theorem empty_cached_value_is_miss_witness:
  "fst (RedisCache_get
          \<lparr>use_redis = True, ttl = 3600, redis_up = True,
           redis_db = [(''category:characters'', PDict [], None)],
           fs_ok = True, files = [(category_json_path ''characters'', PDict example_snapshot, 0)],
           scrape_calls = []\<rparr> 9 ''category:characters'') = PDict []
   \<and> fst (RedisCache_get_category_data
          \<lparr>use_redis = True, ttl = 3600, redis_up = True,
           redis_db = [(''category:characters'', PDict [], None)],
           fs_ok = True, files = [(category_json_path ''characters'', PDict example_snapshot, 0)],
           scrape_calls = []\<rparr> 9 ''characters'') = PList []
   \<and> fst (RedisCache_get_category_data empty_world 9 ''characters'') = PList []
   \<and> get_category_items example_validation
          \<lparr>use_redis = True, ttl = 3600, redis_up = True,
           redis_db = [(''category:characters'', PDict [], None)],
           fs_ok = True, files = [(category_json_path ''characters'', PDict example_snapshot, 0)],
           scrape_calls = []\<rparr> 9 [] ''characters'' 2 0 False
       = (Inr (CategoryResult ''characters'' 25
                 [snd (example_item ''A''), snd (example_item ''B'')]),
          [''characters''],
          \<lparr>use_redis = True, ttl = 3600, redis_up = True,
           redis_db = [(''category:characters'', PDict [], None)],
           fs_ok = True, files = [(category_json_path ''characters'', PDict example_snapshot, 0)],
           scrape_calls = []\<rparr>)
   \<and> get_category_items example_validation
          \<lparr>use_redis = True, ttl = 3600, redis_up = True,
           redis_db = [(''category:characters'', PDict [], None)],
           fs_ok = True, files = [], scrape_calls = []\<rparr> 9 [] ''characters'' 2 0 False
       = (Inr (JSONResponse 202), [''characters''],
          \<lparr>use_redis = True, ttl = 3600, redis_up = True,
           redis_db = [(''category:characters'', PDict [], None)],
           fs_ok = True, files = [], scrape_calls = []\<rparr>)"
proof -
  let ?disk = "\<lparr>use_redis = True, ttl = 3600, redis_up = True,
                redis_db = [(''category:characters'', PDict [], None)],
                fs_ok = True,
                files = [(category_json_path ''characters'', PDict example_snapshot, 0)],
                scrape_calls = []\<rparr>"
  let ?nodisk = "\<lparr>use_redis = True, ttl = 3600, redis_up = True,
                  redis_db = [(''category:characters'', PDict [], None)],
                  fs_ok = True, files = [], scrape_calls = []\<rparr>"
  have g1: "RedisCache_get ?disk 9 ''category:characters'' = (PDict [], ?disk)"
    by (simp add: RedisCache_get_def redis_get_def)
  have g2: "RedisCache_get ?nodisk 9 ''category:characters'' = (PDict [], ?nodisk)"
    by (simp add: RedisCache_get_def redis_get_def)
  have g3: "fst (RedisCache_get empty_world 9 ''category:characters'') = PNone"
    by (simp add: RedisCache_get_def empty_world_def)
  have h: "''characters'' \<in> set (map fst CATEGORIES)"
    by (simp add: CATEGORIES_def)
  have ne: "truthy (PDict example_snapshot)"
    using length_example by auto
  have f: "map_of (files ?disk) (category_json_path ''characters'')
             = Some (PDict example_snapshot, 0)"
    by simp
  have page: "paginate example_validation ''characters'' (PDict example_snapshot) 2 0
                = Inr (CategoryResult ''characters'' 25
                         [snd (example_item ''A''), snd (example_item ''B'')])"
    by code_simp
  from empty_cached_value_is_miss
         [of ?disk 9 "''characters''" "''x''" "''q''" "PDict []" "PDict example_snapshot" 0
             example_validation "[]" 2 0]
       g1 h ne f page
  have r1: "get_category_items example_validation ?disk 9 [] ''characters'' 2 0 False
              = (Inr (CategoryResult ''characters'' 25
                        [snd (example_item ''A''), snd (example_item ''B'')]),
                 [''characters''], ?disk)"
    by simp
  from empty_cached_value_is_miss
         [of ?disk 9 "''characters''" "''x''" "''q''" "PDict []" "PDict example_snapshot" 0
             example_validation "[]" 2 0] g1
  have r0: "fst (RedisCache_get_category_data ?disk 9 ''characters'') = PList []"
    by simp
  from empty_cached_value_is_miss
         [of empty_world 9 "''characters''" "''x''" "''q''" "PDict []" "PDict example_snapshot" 0
             example_validation "[]" 2 0] g3
  have r3: "fst (RedisCache_get_category_data empty_world 9 ''characters'') = PList []"
    by simp
  from empty_cached_value_is_miss
         [of ?nodisk 9 "''characters''" "''x''" "''q''" "PDict []" "PDict example_snapshot" 0
             example_validation "[]" 2 0]
       g2 h
  have r2: "get_category_items example_validation ?nodisk 9 [] ''characters'' 2 0 False
              = (Inr (JSONResponse 202), [''characters''], ?nodisk)"
    by simp
  from g1 r0 r1 r2 r3 show ?thesis by simp
qed

section \<open>Background refresh\<close>

lemma scrape_calls_RedisCache_set:
  "scrape_calls (snd (RedisCache_set w now key v ttl_arg)) = scrape_calls w"
  by (simp add: snd_RedisCache_set)

lemma call_set_item_data_two_args:
  "call_set_item_data w now [a, b] = Inl TypeError"
  by (simp add: call_set_item_data_def split: pyval.splits list.splits)

lemma call_get_item_data_one_arg:
  "call_get_item_data w now [a] = Inl TypeError"
  by (simp add: call_get_item_data_def split: pyval.splits list.splits)

lemma set_items_result:
  "set_items w now result = (if result = [] then None else Some TypeError, w)"
  by (cases result) (auto simp add: call_set_item_data_two_args)

lemma scrape_calls_save_to_disk:
  "scrape_calls (save_to_disk w now category_name result) = scrape_calls w"
  by (simp add: save_to_disk_def)

lemma scrape_calls_scrape_job:
  "scrape_calls (scrape_job scrape_category now category_name w) = scrape_calls w @ [category_name]"
  by (simp add: scrape_job_def Let_def set_items_result scrape_calls_save_to_disk
        RedisCache_set_category_data_def scrape_calls_RedisCache_set split: sum.splits)

lemma scrape_calls_run_tasks:
  "scrape_calls (run_tasks scrape_category now background_tasks w) = scrape_calls w @ background_tasks"
  unfolding run_tasks_def
  by (induction background_tasks arbitrary: w) (simp_all add: scrape_calls_scrape_job)

text \<open>
  Claim C1, as stated, fails: nothing records that a refresh is pending.
  \<open>scrape_category_async\<close> adds a task also when one for the same category is already
  waiting, and two refresh requests for \<open>characters\<close>, the second made before the first
  one's task has run, invoke the scraping collaborator twice.
\<close>

theorem second_refresh_runs_again:
  "snd (refresh_category ''characters'' []) = [''characters'']
   \<and> scrape_category_async ''characters'' [''characters''] \<noteq> [''characters'']
   \<and> scrape_calls
        (run_tasks scrape_nothing 2 (snd (refresh_category ''characters'' []))
           (run_tasks scrape_nothing 1 (snd (refresh_category ''characters'' [])) empty_world))
       = [''characters'', ''characters'']"
  by (simp add: refresh_category_def CATEGORIES_def scrape_category_async_def
        scrape_calls_run_tasks empty_world_def)

text \<open>
  Claim C1, amended. Every call of \<open>scrape_category_async\<close> adds one background task,
  whatever is already pending, and every task that runs invokes the scraping collaborator
  once: the collaborator's call log grows by exactly the list of tasks, so one more call
  for a category is one more execution for it.
\<close>

theorem every_refresh_runs_the_scraper:
  "scrape_category_async category_name background_tasks = background_tasks @ [category_name]
   \<and> scrape_calls (run_tasks scrape_category now background_tasks w)
       = scrape_calls w @ background_tasks
   \<and> length (filter (\<lambda>c. c = category_name)
               (scrape_calls
                  (run_tasks scrape_category now
                     (scrape_category_async category_name background_tasks) w)))
       = length (filter (\<lambda>c. c = category_name) (scrape_calls w))
         + length (filter (\<lambda>c. c = category_name) background_tasks) + 1"
  by (simp add: scrape_category_async_def scrape_calls_run_tasks)

theorem every_refresh_runs_the_scraper_witness:
  "scrape_calls
     (run_tasks scrape_example 1
        (scrape_category_async ''characters'' (scrape_category_async ''characters'' []))
        empty_world)
   = [''characters'', ''characters'']"
  using every_refresh_runs_the_scraper
          [of "''characters''" "[''characters'', ''characters'']"
              scrape_example 1 empty_world]
  by (simp add: scrape_category_async_def empty_world_def)

text \<open>
  Claim C2 does not hold of the code: the cache write is guarded by \<open>if result:\<close>, the
  backup on disk is not. When the scrape returns an empty mapping and the files can be
  written, the run leaves Redis and the cached category file as they were, but writes the
  empty mapping into the category's snapshot file on disk, whatever that file held.
\<close>

theorem empty_scrape_overwrites_disk_snapshot:
  "scrape_category category_name = Inr [] \<and> fs_ok w \<longrightarrow>
     map_of (files (scrape_job scrape_category now category_name w))
       (category_json_path category_name) = Some (PDict [], now)
     \<and> redis_db (scrape_job scrape_category now category_name w) = redis_db w
     \<and> map_of (files (scrape_job scrape_category now category_name w))
         (get_file_path (''category:'' @ category_name))
        = map_of (files w) (get_file_path (''category:'' @ category_name))"
  by (simp add: scrape_job_def Let_def save_to_disk_def map_of_dict_set
        category_json_path_def get_file_path_def)

theorem empty_scrape_overwrites_disk_snapshot_witness:
  "map_of (files (empty_world\<lparr>files := [(category_json_path ''characters'',
                                          PDict [example_item ''Johnny Silverhand''], 0)]\<rparr>))
     (category_json_path ''characters'') = Some (PDict [example_item ''Johnny Silverhand''], 0)
   \<and> map_of (files (scrape_job scrape_nothing 5 ''characters''
                      (empty_world\<lparr>files := [(category_json_path ''characters'',
                                               PDict [example_item ''Johnny Silverhand''], 0)]\<rparr>)))
       (category_json_path ''characters'') = Some (PDict [], 5)"
  using empty_scrape_overwrites_disk_snapshot
          [of scrape_nothing "''characters''"
              "empty_world\<lparr>files := [(category_json_path ''characters'',
                                       PDict [example_item ''Johnny Silverhand''], 0)]\<rparr>" 5]
  by (simp add: empty_world_def scrape_nothing_def)

text \<open>A scrape that raises changes neither store.\<close>

lemma failed_scrape_changes_nothing:
  "scrape_category category_name = Inl e \<Longrightarrow>
     scrape_job scrape_category now category_name w
       = w\<lparr>scrape_calls := scrape_calls w @ [category_name]\<rparr>"
  by (simp add: scrape_job_def Let_def)

section \<open>Item lookup\<close>

text \<open>
  Claim C9 does not hold of the code: \<open>get_item_details\<close> calls
  \<open>redis.get_item_data(item_title)\<close> with one argument, while
  \<open>RedisCache.get_item_data\<close> takes a category and an item id. The call raises
  \<open>TypeError\<close>, the handler's outer \<open>except\<close> turns it into status 500, and neither the
  scan over the categories nor the write of the per-item key is reached, for any title and
  any state.
\<close>

theorem item_lookup_always_fails:
  "get_item_details WikiItem get_page_metadata w now item_title = (Inl (HTTPException 500), w)"
  by (simp add: get_item_details_def get_item_details_body_def call_get_item_data_one_arg
        reraise_def Let_def)

theorem item_lookup_always_fails_witness:
  "fst (RedisCache_get_category_data
          (snd (RedisCache_set_category_data empty_world 0 ''characters''
                  (PDict [example_item ''Johnny Silverhand''])))
          1 ''characters'') = PDict [example_item ''Johnny Silverhand'']
   \<and> get_item_details example_validation fetch_example
        (snd (RedisCache_set_category_data empty_world 0 ''characters''
                (PDict [example_item ''Johnny Silverhand''])))
        1 ''Johnny Silverhand''
      = (Inl (HTTPException 500),
         snd (RedisCache_set_category_data empty_world 0 ''characters''
                (PDict [example_item ''Johnny Silverhand''])))"
  using item_lookup_always_fails
          [of example_validation fetch_example
              "snd (RedisCache_set_category_data empty_world 0 ''characters''
                      (PDict [example_item ''Johnny Silverhand'']))"
              1 "''Johnny Silverhand''"]
  by (simp add: RedisCache_get_category_data_def RedisCache_set_category_data_def
        snd_RedisCache_set RedisCache_get_def empty_world_def py_or_def seconds_def)

section \<open>Search\<close>

lemma lower_char_space: "is_space c \<Longrightarrow> lower_char c = c"
  by (auto simp add: is_space_def lower_char_def)

lemma lower_spaces: "\<forall>c \<in> set l. is_space c \<Longrightarrow> lower l = l"
  by (induction l) (simp_all add: lower_def lower_char_space)

lemma lower_append: "lower (a @ b) = lower a @ lower b"
  by (simp add: lower_def)

lemma strip_padding:
  assumes l: "\<forall>c \<in> set l. is_space c" and r: "\<forall>c \<in> set r. is_space c"
  shows "strip (l @ x @ r) = strip x"
proof -
  have a: "dropWhile is_space (l @ x @ r) = dropWhile is_space (x @ r)"
    using l by (simp add: dropWhile_append2)
  show ?thesis
  proof (cases "\<forall>c \<in> set x. is_space c")
    case True
    then have "dropWhile is_space x = []" by simp
    moreover from True r have "dropWhile is_space (x @ r) = []" by auto
    ultimately show ?thesis by (simp only: strip_def a)
  next
    case False
    then obtain c where "c \<in> set x" and "\<not> is_space c" by blast
    then have b: "dropWhile is_space (x @ r) = dropWhile is_space x @ r"
      by simp
    have "dropWhile is_space (rev r @ rev (dropWhile is_space x))
            = dropWhile is_space (rev (dropWhile is_space x))"
      by (rule dropWhile_append2) (use r in auto)
    then show ?thesis by (simp add: strip_def a b)
  qed
qed

lemma normalized_query_padding:
  assumes "\<forall>c \<in> set l. is_space c" and "\<forall>c \<in> set r. is_space c" and "lower q' = lower q"
  shows "normalized_query (l @ q' @ r) = normalized_query q"
  using assms
  by (simp add: normalized_query_def lower_append lower_spaces strip_padding)

text \<open>
  Claim C6, as stated, fails: the code lowercases and trims, it does not collapse
  internal whitespace. Two queries that differ only in the number of spaces between two
  words have the same normal form in the specification's sense and different cache keys.
\<close>

theorem internal_whitespace_not_collapsed:
  "spec_normalize ''night  city'' = spec_normalize ''night city''
   \<and> search_key ''night  city'' \<noteq> search_key ''night city''"
  by code_simp

text \<open>
  Claim C6, amended. Two queries that differ only in letter case and in leading or
  trailing whitespace derive the same search cache key, and \<open>search_in_cache\<close> does the
  same on both, so the two requests read the same cached entry. Internal whitespace is
  part of the key.
\<close>

theorem search_key_ignores_case_and_padding:
  "(\<forall>c \<in> set l. is_space c) \<and> (\<forall>c \<in> set r. is_space c) \<and> lower q' = lower q \<longrightarrow>
     search_key (l @ q' @ r) = search_key q
     \<and> search_in_cache max_search_results w now (l @ q' @ r) categories
         = search_in_cache max_search_results w now q categories"
  by (simp add: search_key_def search_in_cache_def normalized_query_padding)

text \<open>The witness: the specification's example, and a query padded with a no-break space
  (160) and a next-line character (133) whose first letter is a capital E with acute
  (201).\<close>

theorem search_key_ignores_case_and_padding_witness:
  "search_key '' Ripperdoc '' = search_key ''ripperdoc''
   \<and> search_key ''ripperdoc'' = ''search:ripperdoc''
   \<and> search_key ([char_of (160 :: nat)] @ (char_of (201 :: nat) # ''VA'') @ [char_of (133 :: nat)])
       = search_key (char_of (233 :: nat) # ''va'')"
proof -
  have a: "\<forall>c \<in> set '' ''. is_space c"
    by (simp add: is_space_def)
  have b: "lower ''Ripperdoc'' = lower ''ripperdoc''"
    by code_simp
  have c: "search_key ''ripperdoc'' = ''search:ripperdoc''"
    by code_simp
  have a1: "\<forall>c \<in> set [char_of (160 :: nat)]. is_space c"
    by (simp add: is_space_def)
  have a2: "\<forall>c \<in> set [char_of (133 :: nat)]. is_space c"
    by (simp add: is_space_def)
  have b2: "lower (char_of (201 :: nat) # ''VA'') = lower (char_of (233 :: nat) # ''va'')"
    by code_simp
  from search_key_ignores_case_and_padding
         [of "'' ''" "'' ''" "''Ripperdoc''" "''ripperdoc''" 20 empty_world 0 "[]"] a b c
       search_key_ignores_case_and_padding
         [of "[char_of (160 :: nat)]" "[char_of (133 :: nat)]" "char_of (201 :: nat) # ''VA''"
             "char_of (233 :: nat) # ''va''" 20 empty_world 0 "[]"] a1 a2 b2
  show ?thesis by simp
qed

lemma search_items_400:
  "(fst (search_items WikiItem max_search_results w now q categories limit offset)
      = Inl (HTTPException 400))
     = (length (strip q) < 2)"
proof (cases "q = [] \<or> length (strip q) < 2")
  case True
  then have "length (strip q) < 2" by (auto simp add: strip_def)
  with True show ?thesis by (simp add: search_items_def)
next
  case False
  then show ?thesis
    by (simp add: search_items_def split: prod.splits sum.splits)
qed

text \<open>
  Claim C5, as stated, fails: the handler compares the trimmed length with the literal 2,
  not with \<open>SEARCH_MIN_QUERY_LENGTH\<close>. The query \<open>ab\<close> is shorter than the configured
  minimum of 3 and is answered with a (here empty) result, not rejected.
\<close>

theorem two_character_query_accepted:
  "int (length (strip ''ab'')) < SEARCH_MIN_QUERY_LENGTH
   \<and> fst (search_items example_validation 20 empty_world 0 ''ab'' [] 10 0)
       = Inr (SearchResult ''ab'' 0 [])"
  by code_simp

text \<open>
  Claim C5, amended. \<open>search_items\<close> rejects a query with status 400 exactly when its
  trimmed length is below 2 (the empty query included); a query of trimmed length 2 or
  more is never rejected with 400: it is answered with a result, or with status 500 when
  the search itself raised.
\<close>

theorem search_rejects_below_two_characters:
  "(fst (search_items WikiItem max_search_results w now q categories limit offset)
      = Inl (HTTPException 400))
     = (length (strip q) < 2)
   \<and> (2 \<le> length (strip q) \<longrightarrow>
        (\<exists>page. fst (search_items WikiItem max_search_results w now q categories limit offset)
                  = Inr page)
        \<or> fst (search_items WikiItem max_search_results w now q categories limit offset)
            = Inl (HTTPException 500))"
proof -
  have "2 \<le> length (strip q) \<longrightarrow>
        (\<exists>page. fst (search_items WikiItem max_search_results w now q categories limit offset)
                  = Inr page)
        \<or> fst (search_items WikiItem max_search_results w now q categories limit offset)
            = Inl (HTTPException 500)"
    by (auto simp add: search_items_def strip_def split: prod.splits sum.splits)
  with search_items_400 show ?thesis by blast
qed

text \<open>The witness: \<open>a\<close>, \<open>a\<close> padded with spaces and \<open>a\<close> padded with no-break spaces
  (160) are rejected; \<open>ab\<close> and \<open>abc\<close> are not.\<close>

theorem search_rejects_below_two_characters_witness:
  "fst (search_items example_validation 20 empty_world 0 ''a'' [] 10 0) = Inl (HTTPException 400)
   \<and> fst (search_items example_validation 20 empty_world 0 ''  a  '' [] 10 0)
       = Inl (HTTPException 400)
   \<and> fst (search_items example_validation 20 empty_world 0
            [char_of (160 :: nat), CHR ''a'', char_of (160 :: nat)] [] 10 0)
       = Inl (HTTPException 400)
   \<and> fst (search_items example_validation 20 empty_world 0 ''ab'' [] 10 0)
       \<noteq> Inl (HTTPException 400)
   \<and> fst (search_items example_validation 20 empty_world 0 ''abc'' [] 10 0)
       \<noteq> Inl (HTTPException 400)"
proof -
  have s1: "length (strip ''a'') = 1" by code_simp
  have s2: "length (strip ''  a  '') = 1" by code_simp
  have s3: "length (strip [char_of (160 :: nat), CHR ''a'', char_of (160 :: nat)]) = 1"
    by code_simp
  have s4: "length (strip ''ab'') = 2" by code_simp
  have s5: "length (strip ''abc'') = 3" by code_simp
  from search_rejects_below_two_characters [of example_validation 20 empty_world 0 "''a''" "[]" 10 0]
       search_rejects_below_two_characters
         [of example_validation 20 empty_world 0 "''  a  ''" "[]" 10 0]
       search_rejects_below_two_characters
         [of example_validation 20 empty_world 0
             "[char_of (160 :: nat), CHR ''a'', char_of (160 :: nat)]" "[]" 10 0]
       search_rejects_below_two_characters
         [of example_validation 20 empty_world 0 "''ab''" "[]" 10 0]
       search_rejects_below_two_characters
         [of example_validation 20 empty_world 0 "''abc''" "[]" 10 0]
       s1 s2 s3 s4 s5
  show ?thesis by simp
qed

end
